theory Spec2Isabelle
  imports Complex_Main "HOL-Library.AList" "HOL-Library.Multiset"
begin

section \<open>Columns (pysph.base.carray)\<close>

text \<open>
  The particle store of \<^verbatim>\<open>pysph/base/particle_array.pyx\<close> keeps one typed,
  resizable array per property. The array classes (\<^verbatim>\<open>LongArray\<close>,
  \<^verbatim>\<open>DoubleArray\<close>, \<^verbatim>\<open>FloatArray\<close>, \<^verbatim>\<open>IntArray\<close>) live in
  \<^verbatim>\<open>pysph/base/carray\<close>, which is not among the source files; their operations are
  modelled from the specification's description of a Column.

  A value handed to the store is a Python number; numbers are real numbers here, and
  double arithmetic is idealised as real arithmetic. What a column holds is the value
  converted to the column's element type, as numpy and C do when they store it.
\<close>

datatype error = ValueError | AttributeError | KeyError | TypeError | UnboundLocalError

datatype ctype = CDouble | CLong | CFloat | CInt

datatype 'v carray = CArray (ctype: ctype) (cdata: "'v list")

text \<open>The conversion of a number to the element type of a column: a double keeps it,
  a \<^verbatim>\<open>long\<close> or \<^verbatim>\<open>int\<close> column drops the fraction (towards zero), a \<^verbatim>\<open>float\<close>
  column rounds it to 24 significant bits, to the nearest value and to the even one of
  two equally near (below \<open>2\<^sup>-\<^sup>1\<^sup>2\<^sup>6\<close> in steps of \<open>2\<^sup>-\<^sup>1\<^sup>4\<^sup>9\<close>). A number that
  the element type cannot hold (beyond 64 or 32 bits, or beyond the largest single) is
  outside the model: \<open>fits\<close> says that it can be held, and the theorems about stored
  values ask for it.\<close>

definition trunc_toward_zero :: "real \<Rightarrow> real" where
  "trunc_toward_zero x = (if 0 \<le> x then of_int \<lfloor>x\<rfloor> else of_int \<lceil>x\<rceil>)"

definition round_half_even :: "real \<Rightarrow> int" where
  "round_half_even y =
     (let f = \<lfloor>y\<rfloor>; r = y - of_int f
      in if r < 1 / 2 then f else if 1 / 2 < r then f + 1 else if even f then f else f + 1)"

definition round_to_single :: "real \<Rightarrow> real" where
  "round_to_single x =
     (if x = 0 then 0
      else let e = max \<lfloor>log 2 \<bar>x\<bar>\<rfloor> (- 126);
               ulp = 2 powi (e - 23)
           in of_int (round_half_even (x / ulp)) * ulp)"

fun to_ctype :: "ctype \<Rightarrow> real \<Rightarrow> real" where
  "to_ctype CDouble x = x"
| "to_ctype CLong x = trunc_toward_zero x"
| "to_ctype CFloat x = round_to_single x"
| "to_ctype CInt x = trunc_toward_zero x"


text \<open>Modelled from the spec: the carray constructors. \<^verbatim>\<open>create(size, fillValue=0)\<close>
  "allocates a dense array of size elements initialized to fillValue".\<close>

definition new_carray :: "ctype \<Rightarrow> nat \<Rightarrow> 'v::zero carray" where
  "new_carray t sz = CArray t (replicate sz 0)"

definition DoubleArray :: "nat \<Rightarrow> 'v::zero carray" where
  "DoubleArray sz = new_carray CDouble sz"

definition LongArray :: "nat \<Rightarrow> 'v::zero carray" where
  "LongArray sz = new_carray CLong sz"

definition FloatArray :: "nat \<Rightarrow> 'v::zero carray" where
  "FloatArray sz = new_carray CFloat sz"

definition IntArray :: "nat \<Rightarrow> 'v::zero carray" where
  "IntArray sz = new_carray CInt sz"

text \<open>Modelled from the spec: the \<^verbatim>\<open>length\<close> attribute of a carray, "a dense ordered
  sequence of values, a length".\<close>

definition carray_length :: "'v carray \<Rightarrow> nat" where
  "carray_length a = length (cdata a)"

text \<open>Modelled from the spec: carray \<^verbatim>\<open>resize(newSize)\<close>, which "truncates or extends;
  newly added slots are zero-initialized".\<close>

definition resize :: "'v::zero carray \<Rightarrow> nat \<Rightarrow> 'v carray" where
  "resize a newSize =
     CArray (ctype a) (take newSize (cdata a) @ replicate (newSize - length (cdata a)) 0)"

text \<open>Modelled from the spec: carray \<^verbatim>\<open>extend(values)\<close>, which "appends a sequence,
  growing length by len(values)"; the Column is "homogeneously-typed", so the appended
  values take its element type.\<close>

definition carray_extend :: "real carray \<Rightarrow> real list \<Rightarrow> real carray" where
  "carray_extend a vs = CArray (ctype a) (cdata a @ map (to_ctype (ctype a)) vs)"

text \<open>Modelled from the spec: carray \<^verbatim>\<open>remove(sorted_indices, 1)\<close>, the Column's
  \<^verbatim>\<open>removeAt\<close>: "swap with an element from the tail and shrink semantics per removed
  index, processed from an index set sorted ascending". The indices are taken from the
  largest down, so that a slot still to be removed is never the one moved from the tail;
  for each index inside the array the last element is written over the slot and the
  array shrinks by one. An index outside the array names no slot and is passed over.\<close>

fun tail_swap_remove :: "'v list \<Rightarrow> nat list \<Rightarrow> 'v list" where
  "tail_swap_remove xs [] = xs"
| "tail_swap_remove xs (i # rest) =
     tail_swap_remove (if i < length xs then butlast (xs[i := last xs]) else xs) rest"

definition carray_remove :: "'v carray \<Rightarrow> nat list \<Rightarrow> 'v carray" where
  "carray_remove a sorted_indices =
     CArray (ctype a) (tail_swap_remove (cdata a) (rev sorted_indices))"

text \<open>Modelled from the spec: carray \<^verbatim>\<open>set_data(values)\<close>, the column write behind
  the store's \<^verbatim>\<open>set\<close>, which makes no length check of its own. The spec sets its own
  strict contract for \<^verbatim>\<open>set\<close> against what the code does, "the legacy get/set
  convenience path", which it describes as "permitting partial/mismatched-length
  assignment": values no more than the column are written over its first slots, in
  place, and the slots after them stay. More values than the column has slots cannot be
  written in place and are refused.\<close>

definition set_data :: "real carray \<Rightarrow> real list \<Rightarrow> error + real carray" where
  "set_data a vs =
     (if length vs \<le> carray_length a
      then Inr (CArray (ctype a) (map (to_ctype (ctype a)) vs @ drop (length vs) (cdata a)))
      else Inl ValueError)"

text \<open>The numpy view of an array: \<^verbatim>\<open>arr.get_npy_array()[:] = v\<close> stores the scalar
  \<open>v\<close>, converted to the element type, in every slot, \<^verbatim>\<open>nparr[old_size:] = v\<close> in
  every slot from \<open>old_size\<close> on, and \<^verbatim>\<open>numpy.asarray(data, dtype=t)\<close> is the data
  converted to \<open>t\<close>.\<close>

definition fill_all :: "real carray \<Rightarrow> real \<Rightarrow> real carray" where
  "fill_all a v = CArray (ctype a) (replicate (length (cdata a)) (to_ctype (ctype a) v))"

definition fill_from :: "nat \<Rightarrow> real carray \<Rightarrow> real \<Rightarrow> real carray" where
  "fill_from old_size a v =
     CArray (ctype a)
       (take old_size (cdata a)
        @ replicate (length (cdata a) - old_size) (to_ctype (ctype a) v))"

definition asarray :: "ctype \<Rightarrow> real list \<Rightarrow> real list" where
  "asarray t vs = map (to_ctype t) vs"

section \<open>The particle store (pysph/base/particle_array.pyx)\<close>

text \<open>
  A \<^verbatim>\<open>ParticleArray\<close> holds three dictionaries and a flag. A Python dictionary is
  modelled as an association list: its keys are distinct, and the order of the list is
  the dictionary's iteration order (\<^verbatim>\<open>values()[0]\<close> is the head). Assignment
  \<^verbatim>\<open>d[k] = v\<close> is \<^const>\<open>AList.update\<close>: it replaces the entry of an existing key
  and adds a new key otherwise. The \<^verbatim>\<open>particle_manager\<close> reference plays no role in
  any operation and is left out.

  An operation returns the pair of the exception it raised, if any, and the store as
  the call left it; \<open>None\<close> is a normal return.
\<close>

record 'v ParticleArray =
  pa_name :: string
  properties :: "(string \<times> 'v carray) list"
  default_values :: "(string \<times> 'v) list"
  temporary_arrays :: "(string \<times> 'v carray) list"
  is_dirty :: bool

type_synonym 'v outcome = "error option \<times> 'v ParticleArray"

text \<open>The dictionary \<^verbatim>\<open>prop_info\<close> handed to \<^verbatim>\<open>add_property\<close>: each of its four
  keys may be absent (\<^verbatim>\<open>prop_info.get\<close> then gives \<^verbatim>\<open>None\<close>).\<close>

record 'v prop_info =
  pi_name :: "string option"
  pi_type :: "string option"
  pi_data :: "'v list option"
  pi_default :: "'v option"

subsection \<open>The data of the pair evaluators\<close>

text \<open>
  The pair evaluators of \<^verbatim>\<open>pysph/sph/funcs/pressure_funcs\<close> read the columns of a
  source and a destination array through raw \<^verbatim>\<open>double\<close> pointers
  (\<^verbatim>\<open>self.s_m.data[source_pid]\<close>). A column is a list of reals here: double
  arithmetic is idealised as real arithmetic, and a read is \<open>xs ! i\<close>; the C code makes
  no bounds check, and the evaluators are only called with indices inside the columns.
  \<^verbatim>\<open>cPoint\<close> is the C struct of three doubles.
\<close>

datatype cPoint = cPoint (px: real) (py: real) (pz: real)

record SPHFunctionParticle =
  s_x :: "real list"
  s_y :: "real list"
  s_z :: "real list"
  s_h :: "real list"
  s_m :: "real list"
  s_rho :: "real list"
  s_p :: "real list"
  s_u :: "real list"
  s_v :: "real list"
  s_w :: "real list"
  s_cs :: "real list"
  d_x :: "real list"
  d_y :: "real list"
  d_z :: "real list"
  d_h :: "real list"
  d_rho :: "real list"
  d_p :: "real list"
  d_u :: "real list"
  d_v :: "real list"
  d_w :: "real list"
  d_cs :: "real list"
  hks :: bool
  rkpm_first_order_correction :: bool
  bonnet_and_lok_correction :: bool
  num_outputs :: int

record MomentumEquation = SPHFunctionParticle +
  alpha :: real
  beta :: real
  gamma :: real
  eta :: real
  sound_speed :: real

subsection \<open>The operations of the store\<close>

definition has_key :: "(string \<times> 'a) list \<Rightarrow> string \<Rightarrow> bool" where
  "has_key d k = (map_of d k \<noteq> None)"

definition get_number_of_particles :: "'v ParticleArray \<Rightarrow> nat" where
  "get_number_of_particles self =
     (case properties self of [] \<Rightarrow> 0 | (k, prop0) # rest \<Rightarrow> carray_length prop0)"

definition check_property :: "'v ParticleArray \<Rightarrow> string \<Rightarrow> error option" where
  "check_property self prop =
     (if has_key (temporary_arrays self) prop \<or> has_key (properties self) prop then None
      else Some AttributeError)"

text \<open>\<^verbatim>\<open>remove_particles\<close>. The index list is a \<^verbatim>\<open>LongArray\<close>; its entries are
  positions, modelled as natural numbers. The only \<^verbatim>\<open>raise\<close> is the first statement;
  sorting and the column removals do not fail.\<close>

definition remove_particles :: "'v ParticleArray \<Rightarrow> nat list \<Rightarrow> 'v outcome" where
  "remove_particles self index_list =
     (if length index_list > get_number_of_particles self then (Some ValueError, self)
      else
        let sorted_indices = sort index_list in
        (None, self\<lparr>properties :=
                       map (\<lambda>(k, prop_array). (k, carray_remove prop_array sorted_indices))
                         (properties self),
                     temporary_arrays :=
                       map (\<lambda>(k, prop_array). (k, carray_remove prop_array sorted_indices))
                         (temporary_arrays self),
                     is_dirty := True\<rparr>))"

definition remove_tagged_particles :: "'v ParticleArray \<Rightarrow> 'v \<Rightarrow> 'v outcome" where
  "remove_tagged_particles self tag =
     (case map_of (properties self) ''tag'' of
        None \<Rightarrow> (Some KeyError, self)
      | Some tag_array \<Rightarrow>
          let indices = filter (\<lambda>i. cdata tag_array ! i = tag) [0 ..< carray_length tag_array]
          in (case remove_particles self indices of
                (Some e, self') \<Rightarrow> (Some e, self')
              | (None, self') \<Rightarrow>
                  (None, if length indices > 0 then self'\<lparr>is_dirty := True\<rparr> else self')))"

text \<open>The loop of \<^verbatim>\<open>extend\<close> over the properties: each array is resized, then its
  new slots are set to the property's recorded default; a property with no recorded
  default raises \<^verbatim>\<open>KeyError\<close> after its array has been resized.\<close>

fun extend_loop ::
  "(string \<times> real) list \<Rightarrow> nat \<Rightarrow> nat \<Rightarrow> (string \<times> real carray) list
     \<Rightarrow> error option \<times> (string \<times> real carray) list" where
  "extend_loop dv old_size new_size [] = (None, [])"
| "extend_loop dv old_size new_size ((key, arr) # rest) =
     (case map_of dv key of
        None \<Rightarrow> (Some KeyError, (key, resize arr new_size) # rest)
      | Some d \<Rightarrow>
          (case extend_loop dv old_size new_size rest of
             (e, rest') \<Rightarrow> (e, (key, fill_from old_size (resize arr new_size) d) # rest')))"

definition extend :: "real ParticleArray \<Rightarrow> int \<Rightarrow> real outcome" where
  "extend self num_particles =
     (if num_particles \<le> 0 then (None, self)
      else
        let old_size = get_number_of_particles self;
            new_size = old_size + nat num_particles
        in (case extend_loop (default_values self) old_size new_size (properties self) of
              (Some e, props) \<Rightarrow> (Some e, self\<lparr>properties := props\<rparr>)
            | (None, props) \<Rightarrow>
                (None, self\<lparr>properties := props,
                             temporary_arrays :=
                               map (\<lambda>(k, arr). (k, resize arr new_size))
                                 (temporary_arrays self)\<rparr>)))"

text \<open>The loop of \<^verbatim>\<open>add_particles\<close> over the properties: a property named in
  the batches is extended by its batch; any other is resized to the new count and its
  new slots are set to the recorded default.\<close>

fun add_particles_loop ::
  "(string \<times> real list) list \<Rightarrow> (string \<times> real) list \<Rightarrow> nat \<Rightarrow> nat
     \<Rightarrow> (string \<times> real carray) list \<Rightarrow> error option \<times> (string \<times> real carray) list" where
  "add_particles_loop particle_props dv old_num new_num [] = (None, [])"
| "add_particles_loop particle_props dv old_num new_num ((prop, arr) # rest) =
     (case map_of particle_props prop of
        Some vals \<Rightarrow>
          (case add_particles_loop particle_props dv old_num new_num rest of
             (e, rest') \<Rightarrow> (e, (prop, carray_extend arr vals) # rest'))
      | None \<Rightarrow>
          (case map_of dv prop of
             None \<Rightarrow> (Some KeyError, (prop, resize arr new_num) # rest)
           | Some d \<Rightarrow>
               (case add_particles_loop particle_props dv old_num new_num rest of
                  (e, rest') \<Rightarrow> (e, (prop, fill_from old_num (resize arr new_num) d) # rest'))))"

definition add_particles ::
  "real ParticleArray \<Rightarrow> (string \<times> real list) list \<Rightarrow> real outcome" where
  "add_particles self particle_props =
     (if length particle_props = 0 then (None, self)
      else if list_ex (\<lambda>prop. check_property self prop \<noteq> None) (map fst particle_props)
      then (Some AttributeError, self)
      else
        let num_extra_particles = length (snd (hd particle_props));
            old_num_particles = get_number_of_particles self;
            new_num_particles = num_extra_particles + old_num_particles
        in (case add_particles_loop particle_props (default_values self)
                   old_num_particles new_num_particles (properties self) of
              (Some e, props) \<Rightarrow> (Some e, self\<lparr>properties := props\<rparr>)
            | (None, props) \<Rightarrow>
                (let self1 = self\<lparr>properties := props,
                                  temporary_arrays :=
                                    map (\<lambda>(k, arr). (k, resize arr new_num_particles))
                                      (temporary_arrays self)\<rparr>
                 in (None, if num_extra_particles > 0 then self1\<lparr>is_dirty := True\<rparr>
                           else self1))))"

text \<open>\<^verbatim>\<open>set\<close>: every name is checked first; then each array is handed to
  \<^verbatim>\<open>set_data\<close> of the property of that name, or else of the temporary array.\<close>

fun set_loop :: "(string \<times> real list) list \<Rightarrow> real ParticleArray \<Rightarrow> real outcome" where
  "set_loop [] self = (None, self)"
| "set_loop ((prop, proparr) # rest) self =
     (case map_of (properties self) prop of
        Some prop_array \<Rightarrow>
          (case set_data prop_array proparr of
             Inl e \<Rightarrow> (Some e, self)
           | Inr a \<Rightarrow>
               set_loop rest (self\<lparr>properties := AList.update prop a (properties self)\<rparr>))
      | None \<Rightarrow>
          (case map_of (temporary_arrays self) prop of
             Some temp_array \<Rightarrow>
               (case set_data temp_array proparr of
                  Inl e \<Rightarrow> (Some e, self)
                | Inr a \<Rightarrow>
                    set_loop rest
                      (self\<lparr>temporary_arrays := AList.update prop a (temporary_arrays self)\<rparr>))
           | None \<Rightarrow> set_loop rest self))"

definition set_props ::
  "real ParticleArray \<Rightarrow> (string \<times> real list) list \<Rightarrow> real outcome" where
  "set_props self props =
     (if list_ex (\<lambda>prop. check_property self prop \<noteq> None) (map fst props)
      then (Some AttributeError, self)
      else set_loop props self)"

text \<open>\<^verbatim>\<open>_create_carray\<close>: four independent tests on the type name bind \<^verbatim>\<open>arr\<close>;
  a name that passes none of them leaves it unbound, and the first use raises.\<close>

definition create_carray :: "string option \<Rightarrow> nat \<Rightarrow> real \<Rightarrow> error + real carray" where
  "create_carray data_type sz dflt =
     (let arr0 = (if data_type = None \<or> data_type = Some ''double''
                  then Some (DoubleArray sz) else None);
          arr1 = (if data_type = Some ''long'' then Some (LongArray sz) else arr0);
          arr2 = (if data_type = Some ''float'' then Some (FloatArray sz) else arr1);
          arr3 = (if data_type = Some ''int'' then Some (IntArray sz) else arr2)
      in case arr3 of
           None \<Rightarrow> Inl UnboundLocalError
         | Some arr \<Rightarrow> Inr (if sz > 0 then fill_all arr dflt else arr))"

text \<open>\<^verbatim>\<open>_create_c_array_from_npy_array\<close>. The two tests for integer arrays compare
  a dtype object with a scalar type by identity (\<^verbatim>\<open>is\<close>), which never holds; the
  tests for \<^verbatim>\<open>float32\<close> and \<^verbatim>\<open>double\<close> compare by equality.\<close>

datatype npy_dtype = Npy_int32 | Npy_int64 | Npy_float32 | Npy_double | Npy_other

definition create_c_array_from_npy_array ::
  "npy_dtype \<Rightarrow> real list \<Rightarrow> error + real carray" where
  "create_c_array_from_npy_array dtype np_array =
     (let np = length np_array in
      if False then set_data (LongArray np) np_array
      else if dtype = Npy_float32 then set_data (FloatArray np) np_array
      else if dtype = Npy_double then set_data (DoubleArray np) np_array
      else Inl TypeError)"

text \<open>The loop of \<^verbatim>\<open>add_property\<close> that brings the existing properties of an empty
  store to the length of the new data, each filled with its recorded default.\<close>

fun backfill_loop ::
  "(string \<times> real) list \<Rightarrow> nat \<Rightarrow> (string \<times> real carray) list
     \<Rightarrow> error option \<times> (string \<times> real carray) list" where
  "backfill_loop dv len_data [] = (None, [])"
| "backfill_loop dv len_data ((prop, arr) # rest) =
     (case map_of dv prop of
        None \<Rightarrow> (Some KeyError, (prop, resize arr len_data) # rest)
      | Some d \<Rightarrow>
          (case backfill_loop dv len_data rest of
             (e, rest') \<Rightarrow> (e, (prop, fill_all (resize arr len_data) d) # rest')))"

text \<open>\<^verbatim>\<open>add_property\<close>. In the branch for an empty store, data and a type name, the
  source writes \<^verbatim>\<open>arr.get_npy_array[:] = numpy.asarray(data)\<close>: the method is not
  called, and assigning to a slice of the method object raises \<^verbatim>\<open>TypeError\<close>; the
  branch for a populated store calls it.\<close>

definition add_property :: "real ParticleArray \<Rightarrow> real prop_info \<Rightarrow> real outcome" where
  "add_property self prop_info =
     (let data_type = pi_type prop_info; data = pi_data prop_info in
      case pi_name prop_info of
        None \<Rightarrow> (Some ValueError, self)
      | Some prop_name \<Rightarrow>
          if has_key (properties self) prop_name then (None, self)
          else
            let no_data = (case data of None \<Rightarrow> True | Some vs \<Rightarrow> length vs = 0);
                len_data = (case data of None \<Rightarrow> 0 | Some vs \<Rightarrow> length vs);
                vals = (case data of None \<Rightarrow> [] | Some vs \<Rightarrow> vs);
                array_size_proper =
                  (if data = None \<or> get_number_of_particles self = 0 \<or> len_data = 0
                   then True
                   else get_number_of_particles self = len_data)
            in
            if \<not> array_size_proper then (Some ValueError, self)
            else
              let dflt = (case pi_default prop_info of None \<Rightarrow> 0 | Some d \<Rightarrow> d);
                  self1 = self\<lparr>default_values :=
                                 AList.update prop_name dflt (default_values self)\<rparr>
              in
              if get_number_of_particles self1 = 0 then
                (if no_data then
                   (case create_carray data_type 0 dflt of
                      Inl e \<Rightarrow> (Some e, self1)
                    | Inr arr \<Rightarrow>
                        (None, self1\<lparr>properties :=
                                       AList.update prop_name arr (properties self1)\<rparr>))
                 else
                   (case backfill_loop (default_values self1) len_data (properties self1) of
                      (Some e, props) \<Rightarrow> (Some e, self1\<lparr>properties := props\<rparr>)
                    | (None, props) \<Rightarrow>
                        (let self2 = self1\<lparr>properties := props\<rparr> in
                         if data_type = None then
                           (case create_c_array_from_npy_array Npy_double
                                   (asarray CDouble vals) of
                              Inl e \<Rightarrow> (Some e, self2)
                            | Inr arr \<Rightarrow>
                                (None, self2\<lparr>properties :=
                                               AList.update prop_name arr (properties self2)\<rparr>))
                         else
                           (case create_carray data_type len_data dflt of
                              Inl e \<Rightarrow> (Some e, self2)
                            | Inr arr \<Rightarrow> (Some TypeError, self2)))))
              else
                (if no_data then
                   (case create_carray data_type (get_number_of_particles self1) dflt of
                      Inl e \<Rightarrow> (Some e, self1)
                    | Inr arr \<Rightarrow>
                        (None, self1\<lparr>properties :=
                                       AList.update prop_name arr (properties self1)\<rparr>))
                 else if data_type = None then
                   (case create_c_array_from_npy_array Npy_double (asarray CDouble vals) of
                      Inl e \<Rightarrow> (Some e, self1)
                    | Inr arr \<Rightarrow>
                        (None, self1\<lparr>properties :=
                                       AList.update prop_name arr (properties self1)\<rparr>))
                 else
                   (case create_carray data_type len_data dflt of
                      Inl e \<Rightarrow> (Some e, self1)
                    | Inr arr \<Rightarrow>
                        (None, self1\<lparr>properties :=
                                       AList.update prop_name
                                         (CArray (ctype arr) (asarray (ctype arr) vals))
                                         (properties self1)\<rparr>))))"

definition add_temporary_array :: "'v::zero ParticleArray \<Rightarrow> string \<Rightarrow> 'v outcome" where
  "add_temporary_array self arr_name =
     (if has_key (properties self) arr_name then (Some ValueError, self)
      else
        let np = get_number_of_particles self in
        if \<not> has_key (temporary_arrays self) arr_name
        then (None, self\<lparr>temporary_arrays :=
                            AList.update arr_name (DoubleArray np) (temporary_arrays self)\<rparr>)
        else (None, self))"

definition clear :: "'v::zero ParticleArray \<Rightarrow> 'v ParticleArray" where
  "clear self = self\<lparr>properties := [(''tag'', LongArray 0)],
                     temporary_arrays := [], is_dirty := True\<rparr>"

text \<open>\<^verbatim>\<open>initialize\<close>: the store is cleared; a supplied \<^verbatim>\<open>tag\<close> is installed first;
  every other property goes through \<^verbatim>\<open>add_property\<close> under its own name; a tag that
  was not supplied is brought to the particle count with the default tag.\<close>

fun initialize_loop ::
  "(string \<times> real prop_info) list \<Rightarrow> real ParticleArray \<Rightarrow> real outcome" where
  "initialize_loop [] self = (None, self)"
| "initialize_loop ((prop, info) # rest) self =
     (if has_key (properties self) prop then (Some ValueError, self)
      else
        (case add_property self (info\<lparr>pi_name := Some prop\<rparr>) of
           (Some e, self') \<Rightarrow> (Some e, self')
         | (None, self') \<Rightarrow> initialize_loop rest self'))"

definition initialize_tag :: "real ParticleArray \<Rightarrow> real outcome" where
  "initialize_tag self =
     (if get_number_of_particles self > 0 then
        (let nparticles = get_number_of_particles self in
         case map_of (properties self) ''tag'' of
           None \<Rightarrow> (Some KeyError, self)
         | Some tagarr \<Rightarrow>
             (case map_of (default_values self) ''tag'' of
                None \<Rightarrow>
                  (Some KeyError,
                   self\<lparr>properties :=
                          AList.update ''tag'' (resize tagarr nparticles) (properties self)\<rparr>)
              | Some d \<Rightarrow>
                  (None,
                   self\<lparr>properties :=
                          AList.update ''tag'' (fill_all (resize tagarr nparticles) d)
                            (properties self)\<rparr>)))
      else (None, self))"

definition initialize ::
  "real ParticleArray \<Rightarrow> (string \<times> real prop_info) list \<Rightarrow> real outcome" where
  "initialize self props =
     (let self0 = clear self in
      if length props = 0 then (None, self0)
      else
        (case map_of props ''tag'' of
           Some tag_prop \<Rightarrow>
             (case pi_data tag_prop of
                None \<Rightarrow> (Some KeyError, self0)
              | Some tag_data \<Rightarrow>
                  (let a = asarray CLong tag_data in
                   case set_data (resize (LongArray 0) (length a)) a of
                     Inl e \<Rightarrow>
                       (Some e, self0\<lparr>properties :=
                                        [(''tag'', resize (LongArray 0) (length a))]\<rparr>)
                   | Inr tagarr \<Rightarrow>
                       initialize_loop (filter (\<lambda>(k, info). k \<noteq> ''tag'') props)
                         (self0\<lparr>properties := [(''tag'', tagarr)]\<rparr>)))
         | None \<Rightarrow>
             (case initialize_loop props self0 of
                (Some e, self') \<Rightarrow> (Some e, self')
              | (None, self') \<Rightarrow> initialize_tag self')))"

section \<open>The pair evaluators (pysph/sph/funcs/pressure_funcs)\<close>

text \<open>
  The smoothing kernel is a collaborator outside the source files: an evaluator only
  calls \<^verbatim>\<open>kernel.gradient(dst, src, h)\<close>, so a kernel is its gradient function. The
  gradient correction \<^verbatim>\<open>bonnet_and_lok_gradient_correction(dest_pid, &grad)\<close> belongs
  to the base class, which is not among the source files either; it is a parameter
  \<open>correction\<close> that maps the destination index and the gradient to the corrected
  gradient. The accumulator \<^verbatim>\<open>double *nr\<close> is the triple of its first three slots.
\<close>

type_synonym KernelBase = "cPoint \<Rightarrow> cPoint \<Rightarrow> real \<Rightarrow> cPoint"

type_synonym accumulator = "real \<times> real \<times> real"

text \<open>Modelled from the spec: \<^verbatim>\<open>cPoint_dot\<close> and \<^verbatim>\<open>cPoint_norm\<close> of
  \<^verbatim>\<open>pysph/base/point\<close>, the dot product \<open>v_ab \<cdot> r_ab\<close> and the squared length
  \<open>|r_ab|\<^sup>2\<close> of the momentum equation.\<close>

definition cPoint_dot :: "cPoint \<Rightarrow> cPoint \<Rightarrow> real" where
  "cPoint_dot a b = px a * px b + py a * py b + pz a * pz b"

definition cPoint_norm :: "cPoint \<Rightarrow> real" where
  "cPoint_norm a = px a * px a + py a * py a + pz a * pz a"

text \<open>The gradient both \<^verbatim>\<open>eval_nbr\<close> methods go on with, the same statements in
  each. Without kernel symmetrization it is the kernel's gradient at the mean of the
  two smoothing lengths, passed through the correction if that is switched on. With
  symmetrization (\<^verbatim>\<open>hks\<close>) the two gradients are computed, and then the source calls
  \<^verbatim>\<open>grad.set(...)\<close> on \<^verbatim>\<open>grad\<close>, which is declared \<^verbatim>\<open>cdef cPoint grad\<close>: a C
  struct (its address is passed on as \<^verbatim>\<open>&grad\<close>), which has the fields \<open>x\<close>, \<open>y\<close>,
  \<open>z\<close> and no method. The struct is converted to a Python object for the attribute
  lookup, and the lookup raises \<^verbatim>\<open>AttributeError\<close>. The branch for
  \<^verbatim>\<open>rkpm_first_order_correction\<close> is empty in the source.\<close>

definition sph_gradient ::
  "'a SPHFunctionParticle_scheme \<Rightarrow> (nat \<Rightarrow> cPoint \<Rightarrow> cPoint) \<Rightarrow> KernelBase
     \<Rightarrow> nat \<Rightarrow> nat \<Rightarrow> error + cPoint" where
  "sph_gradient self correction kern source_pid dest_pid =
     (let ha = d_h self ! dest_pid;
          hb = s_h self ! source_pid;
          h = 0.5 * (ha + hb);
          src = cPoint (s_x self ! source_pid) (s_y self ! source_pid) (s_z self ! source_pid);
          dst = cPoint (d_x self ! dest_pid) (d_y self ! dest_pid) (d_z self ! dest_pid)
      in if hks self then
           (let grada = kern dst src ha;
                gradb = kern dst src hb
            in Inl AttributeError)
         else
           (let grad = kern dst src h
            in Inr (if bonnet_and_lok_correction self then correction dest_pid grad
                    else grad)))"

text \<open>The closing statements of both methods: slot 0 always, slot 1 for more than one
  output, slot 2 for more than two. An evaluator is a \<^verbatim>\<open>cdef void\<close> function: an
  exception raised inside it cannot be passed to the caller, it is reported and
  dropped, and the function returns there, with the accumulator as it was.\<close>

definition accumulate :: "int \<Rightarrow> real \<Rightarrow> cPoint \<Rightarrow> accumulator \<Rightarrow> accumulator" where
  "accumulate outputs temp grad nr =
     (case nr of (nr0, nr1, nr2) \<Rightarrow>
        (nr0 + temp * px grad,
         if outputs > 1 then nr1 + temp * py grad else nr1,
         if outputs > 1 \<and> outputs > 2 then nr2 + temp * pz grad else nr2))"

definition SPHPressureGradient_eval_nbr ::
  "'a SPHFunctionParticle_scheme \<Rightarrow> (nat \<Rightarrow> cPoint \<Rightarrow> cPoint) \<Rightarrow> nat \<Rightarrow> nat
     \<Rightarrow> KernelBase \<Rightarrow> accumulator \<Rightarrow> accumulator" where
  "SPHPressureGradient_eval_nbr self correction source_pid dest_pid kern nr =
     (let mb = s_m self ! source_pid;
          rhoa = d_rho self ! dest_pid;
          rhob = s_rho self ! source_pid;
          pa = d_p self ! dest_pid;
          pb = s_p self ! source_pid;
          temp = pa / (rhoa * rhoa) + pb / (rhob * rhob);
          temp = temp * (- mb)
      in case sph_gradient self correction kern source_pid dest_pid of
           Inl e \<Rightarrow> nr
         | Inr grad \<Rightarrow> accumulate (num_outputs self) temp grad nr)"

text \<open>The earlier evaluators of \<^verbatim>\<open>pressure_funcs.pyx\<close> call the kernel as
  \<^verbatim>\<open>kernel.gradient(dst, src, h, grad)\<close>: the gradient is written into the
  \<^verbatim>\<open>Point\<close> object \<open>grad\<close>. A variable declared \<^verbatim>\<open>cdef Point grad\<close> and never
  assigned is \<^verbatim>\<open>None\<close>, and there is no object to write into.\<close>

definition kernel_gradient_into ::
  "KernelBase \<Rightarrow> cPoint \<Rightarrow> cPoint \<Rightarrow> real \<Rightarrow> cPoint option \<Rightarrow> error + cPoint" where
  "kernel_gradient_into kern dst src h grad =
     (case grad of None \<Rightarrow> Inl AttributeError | Some g \<Rightarrow> Inr (kern dst src h))"

text \<open>The earlier \<^verbatim>\<open>SPHPressureGradient.eval\<close>: \<^verbatim>\<open>grad = Point()\<close>, no
  symmetrization, no correction, always three outputs, and the factor is \<open>mb\<close>, not
  \<open>- mb\<close>.\<close>

definition SPHPressureGradient_eval ::
  "'a SPHFunctionParticle_scheme \<Rightarrow> nat \<Rightarrow> nat \<Rightarrow> KernelBase \<Rightarrow> accumulator
     \<Rightarrow> accumulator" where
  "SPHPressureGradient_eval self source_pid dest_pid kern nr =
     (let mb = s_m self ! source_pid;
          rhoa = d_rho self ! dest_pid;
          rhob = s_rho self ! source_pid;
          pa = d_p self ! dest_pid;
          pb = s_p self ! source_pid;
          h = 0.5 * (s_h self ! source_pid + d_h self ! dest_pid);
          grad = Some (cPoint 0 0 0);
          src = cPoint (s_x self ! source_pid) (s_y self ! source_pid) (s_z self ! source_pid);
          dst = cPoint (d_x self ! dest_pid) (d_y self ! dest_pid) (d_z self ! dest_pid);
          temp = pa / (rhoa * rhoa) + pb / (rhob * rhob);
          temp = temp * mb
      in case kernel_gradient_into kern dst src h grad of
           Inl e \<Rightarrow> nr
         | Inr grad \<Rightarrow>
             (case nr of (nr0, nr1, nr2) \<Rightarrow>
                (nr0 + temp * px grad, nr1 + temp * py grad, nr2 + temp * pz grad)))"

text \<open>The relative position and velocity of a pair, and their dot product.\<close>

definition rab :: "'a SPHFunctionParticle_scheme \<Rightarrow> nat \<Rightarrow> nat \<Rightarrow> cPoint" where
  "rab self source_pid dest_pid =
     cPoint (d_x self ! dest_pid - s_x self ! source_pid)
            (d_y self ! dest_pid - s_y self ! source_pid)
            (d_z self ! dest_pid - s_z self ! source_pid)"

definition vab :: "'a SPHFunctionParticle_scheme \<Rightarrow> nat \<Rightarrow> nat \<Rightarrow> cPoint" where
  "vab self source_pid dest_pid =
     cPoint (d_u self ! dest_pid - s_u self ! source_pid)
            (d_v self ! dest_pid - s_v self ! source_pid)
            (d_w self ! dest_pid - s_w self ! source_pid)"

text \<open>The value of the local \<^verbatim>\<open>piab\<close> of \<^verbatim>\<open>MomentumEquation.eval_nbr\<close> when it is
  added to \<^verbatim>\<open>tmp\<close>: set to 0, and overwritten only under \<^verbatim>\<open>if dot < 0\<close>.\<close>

definition MomentumEquation_piab :: "MomentumEquation \<Rightarrow> nat \<Rightarrow> nat \<Rightarrow> real" where
  "MomentumEquation_piab self source_pid dest_pid =
     (let ha = d_h self ! dest_pid;
          hb = s_h self ! source_pid;
          hab = 0.5 * (ha + hb);
          ca = d_cs self ! dest_pid;
          cb = s_cs self ! source_pid;
          dot = cPoint_dot (vab self source_pid dest_pid) (rab self source_pid dest_pid);
          rhoa = d_rho self ! dest_pid;
          rhob = s_rho self ! source_pid;
          piab = 0
      in if dot < 0 then
           (let cab = 0.5 * (ca + cb);
                rhoab = 0.5 * (rhoa + rhob);
                mu = hab * dot;
                mu = mu / (cPoint_norm (rab self source_pid dest_pid)
                             + eta self * eta self * hab * hab);
                piab = - alpha self * cab * mu + beta self * mu * mu
            in piab / rhoab)
         else piab)"

definition MomentumEquation_eval_nbr ::
  "MomentumEquation \<Rightarrow> (nat \<Rightarrow> cPoint \<Rightarrow> cPoint) \<Rightarrow> nat \<Rightarrow> nat
     \<Rightarrow> KernelBase \<Rightarrow> accumulator \<Rightarrow> accumulator" where
  "MomentumEquation_eval_nbr self correction source_pid dest_pid kern nr =
     (let Pa = d_p self ! dest_pid;
          rhoa = d_rho self ! dest_pid;
          Pb = s_p self ! source_pid;
          rhob = s_rho self ! source_pid;
          mb = s_m self ! source_pid;
          tmp = Pa / (rhoa * rhoa) + Pb / (rhob * rhob);
          piab = MomentumEquation_piab self source_pid dest_pid;
          tmp = tmp + piab;
          tmp = tmp * (- mb)
      in case sph_gradient self correction kern source_pid dest_pid of
           Inl e \<Rightarrow> nr
         | Inr grad \<Rightarrow> accumulate (num_outputs self) tmp grad nr)"

text \<open>The earlier \<^verbatim>\<open>MomentumEquation.eval\<close> of \<^verbatim>\<open>pressure_funcs.pyx\<close>: the sound
  speed is the fixed \<^verbatim>\<open>sound_speed\<close> when that is positive and the mean of
  \<open>sqrt (gamma P / rho)\<close> otherwise; no symmetrization, no correction, three outputs.
  Its \<open>grad\<close> is declared with the other points (\<^verbatim>\<open>cdef Point va, vb, vab, rab,
  grad\<close>) and never assigned before it is handed to the kernel.\<close>

definition MomentumEquation_piab_eval :: "MomentumEquation \<Rightarrow> nat \<Rightarrow> nat \<Rightarrow> real" where
  "MomentumEquation_piab_eval self source_pid dest_pid =
     (let hab = 0.5 * (s_h self ! source_pid + d_h self ! dest_pid);
          dot = cPoint_dot (vab self source_pid dest_pid) (rab self source_pid dest_pid);
          Pa = d_p self ! dest_pid;
          rhoa = d_rho self ! dest_pid;
          Pb = s_p self ! source_pid;
          rhob = s_rho self ! source_pid;
          piab = 0
      in if dot < 0 then
           (let cab = (if sound_speed self > 0 then sound_speed self
                       else 0.5 * (sqrt (gamma self * Pa / rhoa)
                                     + sqrt (gamma self * Pb / rhob)));
                rhoab = 0.5 * (rhoa + rhob);
                mu = hab * dot;
                mu = mu / (cPoint_norm (rab self source_pid dest_pid)
                             + eta self * eta self * hab * hab);
                piab = - alpha self * cab * mu + beta self * mu * mu
            in piab / rhoab)
         else piab)"

definition MomentumEquation_eval ::
  "MomentumEquation \<Rightarrow> nat \<Rightarrow> nat \<Rightarrow> KernelBase \<Rightarrow> accumulator \<Rightarrow> accumulator" where
  "MomentumEquation_eval self source_pid dest_pid kern nr =
     (let grad = None;
          hab = 0.5 * (s_h self ! source_pid + d_h self ! dest_pid);
          src = cPoint (s_x self ! source_pid) (s_y self ! source_pid) (s_z self ! source_pid);
          dst = cPoint (d_x self ! dest_pid) (d_y self ! dest_pid) (d_z self ! dest_pid);
          Pa = d_p self ! dest_pid;
          rhoa = d_rho self ! dest_pid;
          Pb = s_p self ! source_pid;
          rhob = s_rho self ! source_pid;
          mb = s_m self ! source_pid;
          tmp = Pa / (rhoa * rhoa) + Pb / (rhob * rhob);
          piab = MomentumEquation_piab_eval self source_pid dest_pid;
          tmp = tmp + piab;
          tmp = tmp * (- mb)
      in case kernel_gradient_into kern dst src hab grad of
           Inl e \<Rightarrow> nr
         | Inr grad \<Rightarrow>
             (case nr of (nr0, nr1, nr2) \<Rightarrow>
                (nr0 + tmp * px grad, nr1 + tmp * py grad, nr2 + tmp * pz grad)))"

text \<open>The N-invariant of the store: every property column has the length that
  \<^verbatim>\<open>get_number_of_particles\<close> reports, so any two have the same length.\<close>

definition all_length :: "nat \<Rightarrow> (string \<times> 'v carray) list \<Rightarrow> bool" where
  "all_length n props = list_all (\<lambda>(k, a). carray_length a = n) props"

definition N_invariant :: "'v ParticleArray \<Rightarrow> bool" where
  "N_invariant self = all_length (get_number_of_particles self) (properties self)"

section \<open>Stores used as examples\<close>

text \<open>The store the constructor builds when it is given no properties
  (\<^verbatim>\<open>__cinit__\<close>): only the tag column, empty, with the default tag recorded.\<close>

definition new_ParticleArray :: "string \<Rightarrow> 'v::zero \<Rightarrow> 'v ParticleArray" where
  "new_ParticleArray nm default_particle_tag =
     \<lparr>pa_name = nm, properties = [(''tag'', LongArray 0)],
      default_values = [(''tag'', default_particle_tag)],
      temporary_arrays = [], is_dirty = True\<rparr>"

text \<open>A store of four particles with \<open>x = [0, 1, 2, 3]\<close> and \<open>tag = [0, 0, 0, 0]\<close>,
  a store of two particles whose dirty flag has been cleared, an empty store with the
  two properties \<open>tag\<close> and \<open>x\<close>, and a new store after
  \<^verbatim>\<open>add_temporary_array('t')\<close>.\<close>

definition store_x4 :: "real ParticleArray" where
  "store_x4 =
     \<lparr>pa_name = ''fluid'',
      properties = [(''tag'', CArray CLong [0, 0, 0, 0]), (''x'', CArray CDouble [0, 1, 2, 3])],
      default_values = [(''tag'', 0), (''x'', 0)],
      temporary_arrays = [], is_dirty = False\<rparr>"

definition store_clean :: "real ParticleArray" where
  "store_clean =
     \<lparr>pa_name = ''fluid'', properties = [(''tag'', CArray CLong [0, 0])],
      default_values = [(''tag'', 0)], temporary_arrays = [], is_dirty = False\<rparr>"

definition store_tag_x :: "real ParticleArray" where
  "store_tag_x =
     \<lparr>pa_name = ''fluid'',
      properties = [(''tag'', CArray CLong []), (''x'', CArray CDouble [])],
      default_values = [(''tag'', 0), (''x'', 0)],
      temporary_arrays = [], is_dirty = False\<rparr>"

definition store_temp :: "real ParticleArray" where
  "store_temp = snd (add_temporary_array (new_ParticleArray ''fluid'' 0) ''t'')"

text \<open>A pair of particles for the evaluators: the source at \<open>x = 1\<close> and the
  destination at the origin, both with pressure 1, density 1 and smoothing length 1,
  the source with mass 2; the destination moves away from the source, so the dot
  product of relative velocity and relative position is 1. Three outputs, no kernel
  symmetrization, no gradient correction.\<close>

definition pair_example :: MomentumEquation where
  "pair_example =
     \<lparr>s_x = [1], s_y = [0], s_z = [0], s_h = [1], s_m = [2], s_rho = [1], s_p = [1],
      s_u = [0], s_v = [0], s_w = [0], s_cs = [1],
      d_x = [0], d_y = [0], d_z = [0], d_h = [1], d_rho = [1], d_p = [1],
      d_u = [- 1], d_v = [0], d_w = [0], d_cs = [1],
      hks = False, rkpm_first_order_correction = False, bonnet_and_lok_correction = False,
      num_outputs = 3,
      alpha = 1, beta = 1, gamma = 1.4, eta = 0.1, sound_speed = - 1\<rparr>"

text \<open>Two kernels for the examples: one whose gradient is \<open>(0.1, 0, 0)\<close> everywhere,
  and one whose gradient is \<open>(0.1, 0.2, 0)\<close> everywhere.\<close>

definition constant_kernel :: KernelBase where
  "constant_kernel dst src h = cPoint 0.1 0 0"


section \<open>The conversions on examples\<close>

text \<open>A \<^verbatim>\<open>long\<close> column drops the fraction towards zero. A \<^verbatim>\<open>float\<close> column keeps 1,
  rounds \<open>1 + 2\<^sup>-\<^sup>2\<^sup>4\<close>, which lies halfway between two singles, to the even one, and
  rounds \<open>1 + 3 \<cdot> 2\<^sup>-\<^sup>2\<^sup>4\<close> up.\<close>

lemma to_ctype_long_examples:
  "to_ctype CLong 2.5 = 2" "to_ctype CLong (- 2.5) = - 2" "to_ctype CInt 7 = 7"
  by (simp_all add: trunc_toward_zero_def)

lemma ulp_one: "(2 :: real) powi (- 23) = 1 / 2 ^ 23"
  by (simp add: power_int_def power_one_over)

lemma round_to_single_one: "round_to_single 1 = 1"
  by (simp add: round_to_single_def round_half_even_def Let_def ulp_one)

lemma log_near_one: "1 \<le> x \<Longrightarrow> x < 2 \<Longrightarrow> \<lfloor>log 2 x\<rfloor> = 0"
proof -
  assume a: "1 \<le> x" "x < 2"
  then have "0 \<le> log 2 x" by simp
  moreover have "log 2 x < 1" using a by (simp add: log_less_iff)
  ultimately show ?thesis by linarith
qed

lemma round_to_single_tie: "round_to_single (1 + 1 / 2 ^ 24) = 1"
proof -
  have l: "\<lfloor>log 2 \<bar>1 + 1 / 2 ^ 24 :: real\<bar>\<rfloor> = 0"
    by (rule log_near_one [of "\<bar>1 + 1 / 2 ^ 24\<bar>"]) simp_all
  have f: "\<lfloor>(1 + 1 / 2 ^ 24) * 2 ^ 23 :: real\<rfloor> = 2 ^ 23"
    by (simp add: floor_eq_iff)
  show ?thesis
    unfolding round_to_single_def Let_def l
    by (simp add: round_half_even_def Let_def ulp_one f)
qed

lemma round_to_single_up: "round_to_single (1 + 3 / 2 ^ 24) = 1 + 1 / 2 ^ 22"
proof -
  have l: "\<lfloor>log 2 \<bar>1 + 3 / 2 ^ 24 :: real\<bar>\<rfloor> = 0"
    by (rule log_near_one [of "\<bar>1 + 3 / 2 ^ 24\<bar>"]) simp_all
  have f: "\<lfloor>(1 + 3 / 2 ^ 24) * 2 ^ 23 :: real\<rfloor> = 2 ^ 23 + 1"
    by (simp add: floor_eq_iff)
  show ?thesis
    unfolding round_to_single_def Let_def l
    by (simp add: round_half_even_def Let_def ulp_one f)
qed

section \<open>Removal\<close>

text \<open>
  Claim C4. \<^verbatim>\<open>remove_particles\<close> raises (a \<^verbatim>\<open>ValueError\<close>) exactly when the index
  list is longer than the number of particles, and a call that raises leaves the store
  as it was: every property column, every temporary column and the dirty flag.
\<close>

theorem remove_particles_raises_iff:
  "(fst (remove_particles self index_list) \<noteq> None
      \<longleftrightarrow> length index_list > get_number_of_particles self)
   \<and> (fst (remove_particles self index_list) \<noteq> None
      \<longrightarrow> fst (remove_particles self index_list) = Some ValueError
          \<and> snd (remove_particles self index_list) = self)"
  by (simp add: remove_particles_def Let_def)

theorem remove_particles_raises_iff_witness:
  "fst (remove_particles
          \<lparr>pa_name = ''a'', properties = [(''tag'', CArray CLong [0::int])],
           default_values = [(''tag'', 0)], temporary_arrays = [], is_dirty = False\<rparr>
          [0, 0]) = Some ValueError
   \<and> snd (remove_particles
          \<lparr>pa_name = ''a'', properties = [(''tag'', CArray CLong [0::int])],
           default_values = [(''tag'', 0)], temporary_arrays = [], is_dirty = False\<rparr>
          [0, 0])
     = \<lparr>pa_name = ''a'', properties = [(''tag'', CArray CLong [0::int])],
        default_values = [(''tag'', 0)], temporary_arrays = [], is_dirty = False\<rparr>"
  using remove_particles_raises_iff
    [of "\<lparr>pa_name = ''a'', properties = [(''tag'', CArray CLong [0::int])],
          default_values = [(''tag'', 0)], temporary_arrays = [], is_dirty = False\<rparr>"
        "[0, 0]"]
  by (simp add: get_number_of_particles_def carray_length_def)

section \<open>Growth\<close>

text \<open>
  Claim C10. \<^verbatim>\<open>extend\<close> with a particle count of zero or less returns at once: no
  exception, and the store (property columns, temporary columns, recorded defaults,
  dirty flag) is the one it was given.
\<close>

theorem extend_nonpositive_noop:
  "num_particles \<le> 0 \<Longrightarrow> extend self num_particles = (None, self)"
  by (simp add: extend_def)

theorem extend_nonpositive_noop_witness:
  "extend \<lparr>pa_name = ''a'', properties = [(''tag'', CArray CLong [7::int])],
           default_values = [(''tag'', 0)], temporary_arrays = [(''t'', CArray CDouble [1])],
           is_dirty = False\<rparr> (- 3)
   = (None, \<lparr>pa_name = ''a'', properties = [(''tag'', CArray CLong [7::int])],
           default_values = [(''tag'', 0)], temporary_arrays = [(''t'', CArray CDouble [1])],
           is_dirty = False\<rparr>)"
  using extend_nonpositive_noop [of "- 3"] by simp

section \<open>Tail-swap removal keeps the survivors\<close>

lemma tail_swap_step:
  assumes "i < length xs"
  shows "mset (butlast (xs[i := last xs])) + {#xs ! i#} = mset xs"
proof (cases xs rule: rev_cases)
  case Nil
  with assms show ?thesis by simp
next
  case (snoc ys l)
  show ?thesis
  proof (cases "i < length ys")
    case True
    then have "butlast (xs[i := last xs]) = ys[i := l]"
      using snoc by (simp add: list_update_append)
    moreover have "xs ! i = ys ! i" using True snoc by (simp add: nth_append)
    ultimately show ?thesis using True snoc by (simp add: mset_update)
  next
    case False
    with assms snoc have "i = length ys" by simp
    then show ?thesis using snoc by simp
  qed
qed

text \<open>Taken from the largest index down, each removal leaves the slots below it as
  they were, so every index still names the value it named at the start.\<close>

lemma tail_swap_remove_mset:
  "sorted_wrt (>) ds \<Longrightarrow> \<forall>i\<in>set ds. i < length xs \<Longrightarrow>
   mset (tail_swap_remove xs ds) + mset (map ((!) xs) ds) = mset xs
   \<and> length (tail_swap_remove xs ds) = length xs - length ds"
proof (induction ds arbitrary: xs)
  case Nil
  then show ?case by simp
next
  case (Cons i rest)
  let ?xs' = "butlast (xs[i := last xs])"
  have i: "i < length xs" using Cons.prems by simp
  have rest_lt: "\<forall>j\<in>set rest. j < i" using Cons.prems by auto
  then have in_range: "\<forall>j\<in>set rest. j < length ?xs'" using i by auto
  have same: "map ((!) ?xs') rest = map ((!) xs) rest"
    using rest_lt i by (auto simp: nth_butlast)
  have "sorted_wrt (>) rest" using Cons.prems by simp
  from Cons.IH [OF this in_range] same
  have "mset (tail_swap_remove ?xs' rest) + mset (map ((!) xs) rest) = mset ?xs'"
    and len: "length (tail_swap_remove ?xs' rest) = length ?xs' - length rest"
    by simp_all
  then have "mset (tail_swap_remove ?xs' rest) + mset (map ((!) xs) rest) + {#xs ! i#} = mset xs"
    using tail_swap_step [OF i] by simp
  then show ?case using i len by (simp add: ac_simps)
qed

lemma descending_rev_sort:
  assumes "distinct (index_list :: nat list)"
  shows "sorted_wrt (>) (rev (sort index_list))"
proof -
  have "sorted_wrt (<) (sort index_list)"
    using assms by (simp add: strict_sorted_iff)
  then show ?thesis by (simp add: sorted_wrt_rev)
qed

lemma carray_remove_mset:
  assumes "distinct index_list" and "\<forall>i\<in>set index_list. i < carray_length a"
  shows "mset (cdata (carray_remove a (sort index_list))) + mset (map ((!) (cdata a)) index_list)
           = mset (cdata a)
         \<and> carray_length (carray_remove a (sort index_list))
           = carray_length a - length index_list"
proof -
  let ?ds = "rev (sort index_list)"
  have "\<forall>i\<in>set ?ds. i < length (cdata a)"
    using assms(2) by (simp add: carray_length_def)
  from tail_swap_remove_mset [OF descending_rev_sort [OF assms(1)] this]
  have "mset (tail_swap_remove (cdata a) ?ds) + mset (map ((!) (cdata a)) ?ds) = mset (cdata a)"
    and "length (tail_swap_remove (cdata a) ?ds) = length (cdata a) - length ?ds"
    by simp_all
  moreover have "mset (map ((!) (cdata a)) ?ds) = mset (map ((!) (cdata a)) index_list)"
    by (metis mset_map mset_rev mset_sort)
  ultimately show ?thesis
    by (simp add: carray_remove_def carray_length_def)
qed

lemma distinct_bounded_length:
  assumes "distinct (index_list :: nat list)" and "\<forall>i\<in>set index_list. i < n"
  shows "length index_list \<le> n"
proof -
  have "set index_list \<subseteq> {..<n}" using assms(2) by auto
  then have "card (set index_list) \<le> card {..<n}" by (intro card_mono) auto
  then show ?thesis using assms(1) by (simp add: distinct_card)
qed

text \<open>
  Claim C5. In a store whose property columns all have length N, removing a list of
  distinct indices below N succeeds, and each property column keeps its name and ends
  with exactly the values it had minus those at the removed indices, as a multiset:
  the survivors together with the removed values are the original column. Nothing is
  said of the survivors' order. The column's length drops by the number of indices.
  The removal inside a column is the specification's tail-swap compaction.
\<close>

theorem remove_particles_multiset:
  assumes "N_invariant self"
      and "distinct index_list"
      and "\<forall>i\<in>set index_list. i < get_number_of_particles self"
  shows "fst (remove_particles self index_list) = None
         \<and> list_all2
             (\<lambda>(k, a) (k', a').
                k' = k
                \<and> mset (cdata a') + mset (map ((!) (cdata a)) index_list) = mset (cdata a)
                \<and> carray_length a' = get_number_of_particles self - length index_list)
             (properties self) (properties (snd (remove_particles self index_list)))"
proof -
  have le: "length index_list \<le> get_number_of_particles self"
    using distinct_bounded_length [OF assms(2,3)] .
  have cols: "\<forall>(k, a)\<in>set (properties self). carray_length a = get_number_of_particles self"
    using assms(1) by (simp add: N_invariant_def all_length_def list_all_iff)
  have "list_all2
          (\<lambda>(k, a) (k', a').
             k' = k
             \<and> mset (cdata a') + mset (map ((!) (cdata a)) index_list) = mset (cdata a)
             \<and> carray_length a' = get_number_of_particles self - length index_list)
          (properties self)
          (map (\<lambda>(k, prop_array). (k, carray_remove prop_array (sort index_list)))
             (properties self))"
    unfolding list_all2_map2
  proof (rule list_all2_all_nthI [OF refl], goal_cases)
    case (1 n)
    obtain k a where ka: "properties self ! n = (k, a)" by (cases "properties self ! n")
    with 1 have "(k, a) \<in> set (properties self)" by (metis nth_mem)
    with cols have "carray_length a = get_number_of_particles self" by auto
    with carray_remove_mset [OF assms(2), of a] assms(3) ka show ?case by simp
  qed
  with le show ?thesis by (simp add: remove_particles_def Let_def)
qed

text \<open>The specification's example: removing the indices 1 and 3 from
  \<open>x = [0, 1, 2, 3]\<close> leaves two particles, and \<open>x\<close> holds the values 0 and 2.\<close>

theorem remove_particles_multiset_witness:
  "fst (remove_particles store_x4 [1, 3]) = None
   \<and> list_all2
       (\<lambda>(k, a) (k', a').
          k' = k
          \<and> mset (cdata a') + mset (map ((!) (cdata a)) [1, 3]) = mset (cdata a)
          \<and> carray_length a' = get_number_of_particles store_x4 - length [1 :: nat, 3])
       (properties store_x4) (properties (snd (remove_particles store_x4 [1, 3])))
   \<and> properties (snd (remove_particles store_x4 [1, 3]))
       = [(''tag'', CArray CLong [0, 0]), (''x'', CArray CDouble [0, 2])]"
proof -
  have inv: "N_invariant store_x4"
    by (simp add: N_invariant_def all_length_def store_x4_def get_number_of_particles_def
        carray_length_def)
  have dist: "distinct [1 :: nat, 3]" by simp
  have range: "\<forall>i\<in>set [1 :: nat, 3]. i < get_number_of_particles store_x4"
    by (simp add: store_x4_def get_number_of_particles_def carray_length_def)
  have "properties (snd (remove_particles store_x4 [1, 3]))
          = [(''tag'', CArray CLong [0, 0]), (''x'', CArray CDouble [0, 2])]"
    by (simp add: remove_particles_def store_x4_def get_number_of_particles_def
        carray_length_def carray_remove_def)
  with remove_particles_multiset [OF inv dist range] show ?thesis by simp
qed

section \<open>Removal by tag and the dirty flag\<close>

lemma carray_remove_nothing: "carray_remove a (sort []) = a"
  by (simp add: carray_remove_def)

lemma remove_particles_nothing:
  "remove_particles self [] = (None, self\<lparr>is_dirty := True\<rparr>)"
proof -
  have "\<And>ps :: (string \<times> 'a carray) list.
          map (\<lambda>(k, prop_array). (k, carray_remove prop_array (sort []))) ps = ps"
    by (simp add: carray_remove_nothing case_prod_unfold del: sort_key_simps)
  then show ?thesis by (simp add: remove_particles_def del: sort_key_simps)
qed

text \<open>When no particle carries the tag, \<^verbatim>\<open>remove_tagged_particles\<close> still calls
  \<^verbatim>\<open>remove_particles\<close> with the empty index list, and that call ends with
  \<^verbatim>\<open>self.is_dirty = True\<close>: the columns are untouched, the flag is set.\<close>

lemma remove_tagged_particles_no_match:
  assumes "map_of (properties self) ''tag'' = Some tag_array"
      and "tag \<notin> set (cdata tag_array)"
  shows "remove_tagged_particles self tag = (None, self\<lparr>is_dirty := True\<rparr>)"
proof -
  have "filter (\<lambda>i. cdata tag_array ! i = tag) [0 ..< carray_length tag_array] = []"
    using assms(2) by (auto simp: filter_empty_conv carray_length_def)
  then show ?thesis
    using assms(1) by (simp add: remove_tagged_particles_def remove_particles_nothing)
qed

text \<open>
  Claim C6 says that \<^verbatim>\<open>remove_tagged_particles\<close> leaves the dirty flag alone when no
  particle carries the tag. On a store of two particles tagged 0 whose flag is clear,
  removing tag 5 matches nothing and returns the same columns with the flag set.
\<close>

theorem remove_tagged_particles_sets_dirty:
  "is_dirty store_clean = False
   \<and> 5 \<notin> set (cdata (CArray CLong [0, 0 :: real]))
   \<and> remove_tagged_particles store_clean 5 = (None, store_clean\<lparr>is_dirty := True\<rparr>)
   \<and> is_dirty (snd (remove_tagged_particles store_clean 5)) = True"
proof -
  have "map_of (properties store_clean) ''tag'' = Some (CArray CLong [0, 0])"
    by (simp add: store_clean_def)
  from remove_tagged_particles_no_match [OF this, of 5]
  show ?thesis by (simp add: store_clean_def)
qed

section \<open>Registering a property twice\<close>

text \<open>
  Claim C8, amended. \<^verbatim>\<open>add_property\<close> with a name that is already a property
  returns without raising and leaves the whole store as it was: property columns,
  temporary columns, recorded defaults and dirty flag.
\<close>

theorem add_property_registered_noop:
  "pi_name prop_info = Some prop_name \<Longrightarrow> has_key (properties self) prop_name \<Longrightarrow>
   add_property self prop_info = (None, self)"
  by (simp add: add_property_def Let_def)

theorem add_property_registered_noop_witness:
  "add_property store_x4
     \<lparr>pi_name = Some ''x'', pi_type = None, pi_data = Some [9], pi_default = Some 1\<rparr>
   = (None, store_x4)"
proof -
  have "has_key (properties store_x4) ''x''"
    by (simp add: has_key_def store_x4_def)
  then show ?thesis
    using add_property_registered_noop
      [of "\<lparr>pi_name = Some ''x'', pi_type = None, pi_data = Some [9], pi_default = Some 1\<rparr>"
          "''x''" store_x4]
    by simp
qed

text \<open>The name of a temporary array is not looked for: \<^verbatim>\<open>add_property\<close> tests
  \<^verbatim>\<open>self.properties\<close> only. With \<open>t\<close> registered as a temporary array, adding a
  property \<open>t\<close> returns normally and the store has a new property and a new default.\<close>

theorem add_property_temporary_name_counterexample:
  "has_key (temporary_arrays store_temp) ''t''
   \<and> \<not> has_key (properties store_temp) ''t''
   \<and> fst (add_property store_temp
            \<lparr>pi_name = Some ''t'', pi_type = None, pi_data = None, pi_default = None\<rparr>) = None
   \<and> properties (snd (add_property store_temp
            \<lparr>pi_name = Some ''t'', pi_type = None, pi_data = None, pi_default = None\<rparr>))
       = [(''tag'', CArray CLong []), (''t'', CArray CDouble [])]
   \<and> default_values (snd (add_property store_temp
            \<lparr>pi_name = Some ''t'', pi_type = None, pi_data = None, pi_default = None\<rparr>))
       = [(''tag'', 0), (''t'', 0)]
   \<and> snd (add_property store_temp
            \<lparr>pi_name = Some ''t'', pi_type = None, pi_data = None, pi_default = None\<rparr>)
       \<noteq> store_temp"
proof -
  have st: "store_temp =
      \<lparr>pa_name = ''fluid'', properties = [(''tag'', CArray CLong [])],
       default_values = [(''tag'', 0)], temporary_arrays = [(''t'', CArray CDouble [])],
       is_dirty = True\<rparr>"
    by (simp add: store_temp_def add_temporary_array_def new_ParticleArray_def has_key_def
        get_number_of_particles_def carray_length_def LongArray_def DoubleArray_def
        new_carray_def Let_def)
  show ?thesis
    unfolding st
    by (simp add: add_property_def has_key_def get_number_of_particles_def
        carray_length_def create_carray_def DoubleArray_def new_carray_def Let_def)
qed

section \<open>Column lengths\<close>

lemma carray_length_resize: "carray_length (resize a n) = n"
  by (simp add: carray_length_def resize_def)

lemma carray_length_fill_all: "carray_length (fill_all a v) = carray_length a"
  by (simp add: carray_length_def fill_all_def)

lemma carray_length_fill_from: "carray_length (fill_from old_size a v) = carray_length a"
  by (simp add: carray_length_def fill_from_def)

lemma carray_length_extend: "carray_length (carray_extend a vs) = carray_length a + length vs"
  by (simp add: carray_length_def carray_extend_def)

lemma length_asarray: "length (asarray t vs) = length vs"
  by (simp add: asarray_def)

lemma set_data_length: "set_data a vs = Inr a' \<Longrightarrow> carray_length a' = carray_length a"
  by (auto simp: set_data_def carray_length_def split: if_splits)




lemma create_from_double:
  "create_c_array_from_npy_array Npy_double (asarray CDouble vs) = Inr (CArray CDouble vs)"
  by (simp add: create_c_array_from_npy_array_def set_data_def DoubleArray_def new_carray_def
      carray_length_def asarray_def comp_def)

section \<open>The N-invariant\<close>

lemma all_length_update:
  "all_length n ps \<Longrightarrow> carray_length a = n \<Longrightarrow> all_length n (AList.update k a ps)"
  by (induction ps) (auto simp: all_length_def)

lemma all_length_N_invariant: "all_length n (properties s) \<Longrightarrow> N_invariant s"
  by (cases "properties s")
     (auto simp: N_invariant_def all_length_def get_number_of_particles_def)

lemma N_invariant_all_length:
  "N_invariant s \<Longrightarrow> all_length (get_number_of_particles s) (properties s)"
  by (simp add: N_invariant_def)

text \<open>The invariant says that any two property columns have the same length.\<close>

lemma N_invariant_iff:
  "N_invariant s \<longleftrightarrow>
     (\<forall>a\<in>snd ` set (properties s). \<forall>b\<in>snd ` set (properties s).
        carray_length a = carray_length b)"
proof
  assume "N_invariant s"
  then have len: "\<And>k a. (k, a) \<in> set (properties s) \<Longrightarrow>
               carray_length a = get_number_of_particles s"
    by (auto simp: N_invariant_def all_length_def list_all_iff)
  show "\<forall>a\<in>snd ` set (properties s). \<forall>b\<in>snd ` set (properties s).
               carray_length a = carray_length b"
  proof (intro ballI)
    fix a b
    assume "a \<in> snd ` set (properties s)" and "b \<in> snd ` set (properties s)"
    then obtain k k' where "(k, a) \<in> set (properties s)" and "(k', b) \<in> set (properties s)"
      by force
    then have "carray_length a = get_number_of_particles s"
      and "carray_length b = get_number_of_particles s"
      using len by blast+
    then show "carray_length a = carray_length b" by simp
  qed
next
  assume eq: "\<forall>a\<in>snd ` set (properties s). \<forall>b\<in>snd ` set (properties s).
                carray_length a = carray_length b"
  show "N_invariant s"
  proof (cases "properties s")
    case Nil
    then show ?thesis by (simp add: N_invariant_def all_length_def)
  next
    case (Cons ka rest)
    obtain k a where "ka = (k, a)" by (cases ka)
    with Cons have ain: "a \<in> snd ` set (properties s)" by force
    have "\<forall>(k', b)\<in>set (properties s). carray_length b = carray_length a"
    proof clarify
      fix k' b
      assume "(k', b) \<in> set (properties s)"
      then have "b \<in> snd ` set (properties s)" by force
      with eq ain show "carray_length b = carray_length a" by blast
    qed
    then have "all_length (carray_length a) (properties s)"
      by (simp add: all_length_def list_all_iff)
    then show ?thesis by (rule all_length_N_invariant)
  qed
qed

lemma tail_swap_remove_length_cong:
  "length xs = length ys \<Longrightarrow> length (tail_swap_remove xs ds) = length (tail_swap_remove ys ds)"
  by (induction ds arbitrary: xs ys) auto

lemma extend_loop_lengths:
  "extend_loop dv old_size new_size ps = (None, ps') \<Longrightarrow> all_length new_size ps'"
  by (induction ps arbitrary: ps')
     (auto simp: all_length_def carray_length_fill_from carray_length_resize
           split: option.splits prod.splits)

lemma backfill_loop_lengths:
  "backfill_loop dv n ps = (None, ps') \<Longrightarrow> all_length n ps'"
  by (induction ps arbitrary: ps')
     (auto simp: all_length_def carray_length_fill_all carray_length_resize
           split: option.splits prod.splits)

lemma add_particles_loop_lengths:
  "all_length old_num ps \<Longrightarrow> list_all (\<lambda>(k, vs). length vs = m) pp \<Longrightarrow>
   add_particles_loop pp dv old_num (m + old_num) ps = (None, ps') \<Longrightarrow>
   all_length (m + old_num) ps'"
proof (induction ps arbitrary: ps')
  case Nil
  then show ?case by (simp add: all_length_def)
next
  case (Cons ka rest)
  obtain k a where ka: "ka = (k, a)" by (cases ka)
  have a: "carray_length a = old_num" and r: "all_length old_num rest"
    using Cons.prems(1) ka by (simp_all add: all_length_def)
  have batch: "\<And>vs. map_of pp k = Some vs \<Longrightarrow> length vs = m"
    using Cons.prems(2) by (auto simp: list_all_iff dest!: map_of_SomeD)
  show ?case
    using Cons.prems(3) ka a Cons.IH [OF r Cons.prems(2)] batch
    by (auto simp: all_length_def carray_length_fill_from carray_length_resize
          carray_length_extend split: option.splits prod.splits)
qed

lemma set_loop_lengths:
  "all_length n (properties s) \<Longrightarrow> set_loop props s = (None, s') \<Longrightarrow>
   all_length n (properties s')"
proof (induction props arbitrary: s)
  case Nil
  then show ?case by simp
next
  case (Cons kv rest)
  obtain k v where kv: "kv = (k, v)" by (cases kv)
  show ?case
  proof (cases "map_of (properties s) k")
    case None
    then show ?thesis
      using Cons.prems kv Cons.IH [of s]
        Cons.IH [of "s\<lparr>temporary_arrays := t\<rparr>" for t]
      by (auto split: option.splits sum.splits)
  next
    case (Some prop_array)
    then have "(k, prop_array) \<in> set (properties s)" by (rule map_of_SomeD)
    with Cons.prems(1) have len: "carray_length prop_array = n"
      by (auto simp: all_length_def list_all_iff)
    show ?thesis
    proof (cases "set_data prop_array v")
      case (Inl e)
      with Cons.prems(2) kv Some show ?thesis by simp
    next
      case (Inr a)
      with len have "carray_length a = n" by (simp add: set_data_length)
      from all_length_update [OF Cons.prems(1) this]
      have "all_length n (properties (s\<lparr>properties := AList.update k a (properties s)\<rparr>))"
        by simp
      from Cons.IH [OF this] Cons.prems(2) kv Some Inr show ?thesis by simp
    qed
  qed
qed

lemma carray_length_new:
  "carray_length (DoubleArray n :: real carray) = n"
  "carray_length (LongArray n :: real carray) = n"
  "carray_length (FloatArray n :: real carray) = n"
  "carray_length (IntArray n :: real carray) = n"
  by (simp_all add: carray_length_def DoubleArray_def LongArray_def FloatArray_def IntArray_def
      new_carray_def)

lemma create_carray_length:
  assumes "create_carray data_type n d = Inr arr"
  shows "carray_length arr = n"
proof -
  define arr0 :: "real carray option" where
    "arr0 = (if data_type = None \<or> data_type = Some ''double'' then Some (DoubleArray n) else None)"
  define arr1 where "arr1 = (if data_type = Some ''long'' then Some (LongArray n) else arr0)"
  define arr2 where "arr2 = (if data_type = Some ''float'' then Some (FloatArray n) else arr1)"
  define arr3 where "arr3 = (if data_type = Some ''int'' then Some (IntArray n) else arr2)"
  have l0: "\<And>a. arr0 = Some a \<Longrightarrow> carray_length a = n"
    unfolding arr0_def by (metis carray_length_new(1) option.distinct(1) option.inject)
  have l1: "\<And>a. arr1 = Some a \<Longrightarrow> carray_length a = n"
    unfolding arr1_def using l0 by (metis carray_length_new(2) option.inject)
  have l2: "\<And>a. arr2 = Some a \<Longrightarrow> carray_length a = n"
    unfolding arr2_def using l1 by (metis carray_length_new(3) option.inject)
  have l3: "\<And>a. arr3 = Some a \<Longrightarrow> carray_length a = n"
    unfolding arr3_def using l2 by (metis carray_length_new(4) option.inject)
  have "create_carray data_type n d
          = (case arr3 of None \<Rightarrow> Inl UnboundLocalError
             | Some a \<Rightarrow> Inr (if n > 0 then fill_all a d else a))"
    unfolding create_carray_def Let_def arr3_def arr2_def arr1_def arr0_def ..
  with assms l3 show ?thesis
    by (cases arr3) (auto simp: carray_length_fill_all split: if_splits)
qed

lemma add_property_invariant:
  assumes inv: "N_invariant self" and ok: "add_property self prop_info = (None, s')"
  shows "N_invariant s'"
proof (cases "pi_name prop_info")
  case None
  with ok show ?thesis by (simp add: add_property_def Let_def)
next
  case (Some prop_name)
  let ?N = "get_number_of_particles self"
  have al: "all_length ?N (properties self)" using inv by (rule N_invariant_all_length)
  have n1: "\<And>dv. get_number_of_particles (self\<lparr>default_values := dv\<rparr>) = ?N"
    by (simp add: get_number_of_particles_def)
  show ?thesis
  proof (cases "has_key (properties self) prop_name")
    case True
    with ok Some inv show ?thesis by (simp add: add_property_def Let_def)
  next
    case False
    have "\<exists>n. all_length n (properties s')"
    proof (cases "?N = 0")
      case N0: True
      show ?thesis
      proof (cases "pi_data prop_info = None \<or> pi_data prop_info = Some []")
        case True
        with ok Some False N0 al show ?thesis
          by (auto simp: add_property_def Let_def n1 split: sum.splits if_splits
              dest!: create_carray_length intro!: exI all_length_update)
      next
        case nd: False
        then obtain vs where vs: "pi_data prop_info = Some vs" "vs \<noteq> []" by auto
        with ok Some False N0 show ?thesis
          by (auto simp: add_property_def Let_def n1 create_from_double carray_length_def length_asarray
              split: sum.splits if_splits prod.splits option.splits
              dest!: backfill_loop_lengths intro!: exI all_length_update)
      qed
    next
      case Npos: False
      show ?thesis
      proof (cases "pi_data prop_info = None \<or> pi_data prop_info = Some []")
        case True
        with ok Some False Npos al show ?thesis
          by (auto simp: add_property_def Let_def n1 split: sum.splits if_splits
              dest!: create_carray_length intro!: exI all_length_update)
      next
        case nd: False
        then obtain vs where vs: "pi_data prop_info = Some vs" "vs \<noteq> []" by auto
        with ok Some False Npos al show ?thesis
          by (auto simp: add_property_def Let_def n1 create_from_double carray_length_def length_asarray
              split: sum.splits if_splits intro!: exI all_length_update)
      qed
    qed
    then show ?thesis using all_length_N_invariant by blast
  qed
qed

lemma extend_invariant:
  assumes "N_invariant self" and "extend self num_particles = (None, s')"
  shows "N_invariant s'"
proof (cases "num_particles \<le> 0")
  case True
  with assms show ?thesis by (simp add: extend_def)
next
  case False
  let ?new = "get_number_of_particles self + nat num_particles"
  obtain e props where
    lp: "extend_loop (default_values self) (get_number_of_particles self) ?new (properties self)
           = (e, props)"
    by (cases "extend_loop (default_values self) (get_number_of_particles self) ?new
                 (properties self)")
  with assms(2) False have "e = None" and "properties s' = props"
    by (auto simp: extend_def Let_def split: option.splits)
  with lp extend_loop_lengths have "all_length ?new (properties s')" by blast
  then show ?thesis by (rule all_length_N_invariant)
qed

lemma add_particles_invariant:
  assumes inv: "N_invariant self"
      and eq: "list_all (\<lambda>(k, vs). length vs = length (snd (hd particle_props))) particle_props"
      and ok: "add_particles self particle_props = (None, s')"
  shows "N_invariant s'"
proof (cases "length particle_props = 0")
  case True
  with inv ok show ?thesis by (simp add: add_particles_def)
next
  case False
  let ?m = "length (snd (hd particle_props))"
  let ?old = "get_number_of_particles self"
  obtain e props where
    lp: "add_particles_loop particle_props (default_values self) ?old (?m + ?old)
           (properties self) = (e, props)"
    by (cases "add_particles_loop particle_props (default_values self) ?old (?m + ?old)
                 (properties self)")
  with ok False have "e = None" and "properties s' = props"
    by (auto simp: add_particles_def Let_def split: option.splits if_splits)
  with lp add_particles_loop_lengths [OF N_invariant_all_length [OF inv] eq]
  have "all_length (?m + ?old) (properties s')" by blast
  then show ?thesis by (rule all_length_N_invariant)
qed

lemma remove_particles_invariant:
  assumes inv: "N_invariant self" and ok: "remove_particles self index_list = (None, s')"
  shows "N_invariant s'"
proof -
  let ?ds = "rev (sort index_list)"
  let ?N = "get_number_of_particles self"
  obtain zs :: "'a list" where zs: "length zs = ?N"
    using Ex_list_of_length by blast
  have props: "properties s'
      = map (\<lambda>(k, prop_array). (k, carray_remove prop_array (sort index_list))) (properties self)"
    using ok by (auto simp: remove_particles_def Let_def split: if_splits)
  have "\<And>k a. (k, a) \<in> set (properties self) \<Longrightarrow>
          carray_length (carray_remove a (sort index_list)) = length (tail_swap_remove zs ?ds)"
  proof -
    fix k a assume "(k, a) \<in> set (properties self)"
    with inv have "length (cdata a) = length zs"
      by (auto simp: N_invariant_def all_length_def list_all_iff carray_length_def zs)
    then have "length (tail_swap_remove (cdata a) ?ds) = length (tail_swap_remove zs ?ds)"
      by (rule tail_swap_remove_length_cong)
    then show "carray_length (carray_remove a (sort index_list))
                 = length (tail_swap_remove zs ?ds)"
      by (simp add: carray_remove_def carray_length_def)
  qed
  then have "all_length (length (tail_swap_remove zs ?ds)) (properties s')"
    unfolding props by (auto simp: all_length_def list_all_iff)
  then show ?thesis by (rule all_length_N_invariant)
qed

lemma set_props_invariant:
  assumes "N_invariant self" and "set_props self props = (None, s')"
  shows "N_invariant s'"
proof -
  from assms(2) have "set_loop props self = (None, s')"
    by (simp add: set_props_def split: if_splits)
  from set_loop_lengths [OF N_invariant_all_length [OF assms(1)] this]
  show ?thesis by (rule all_length_N_invariant)
qed

lemma initialize_loop_invariant:
  "N_invariant s \<Longrightarrow> initialize_loop props s = (None, s') \<Longrightarrow> N_invariant s'"
proof (induction props arbitrary: s)
  case Nil
  then show ?case by simp
next
  case (Cons kv rest)
  obtain k info where kv: "kv = (k, info)" by (cases kv)
  obtain e s1 where ap: "add_property s (info\<lparr>pi_name := Some k\<rparr>) = (e, s1)"
    by (cases "add_property s (info\<lparr>pi_name := Some k\<rparr>)")
  with Cons.prems(2) kv have "e = None" and rest: "initialize_loop rest s1 = (None, s')"
    by (auto split: if_splits option.splits)
  with ap add_property_invariant [OF Cons.prems(1)] have "N_invariant s1" by blast
  from Cons.IH [OF this rest] show ?case .
qed

lemma initialize_tag_invariant:
  assumes "N_invariant s" and "initialize_tag s = (None, s')"
  shows "N_invariant s'"
proof (cases "get_number_of_particles s > 0")
  case False
  with assms show ?thesis by (simp add: initialize_tag_def)
next
  case True
  with assms(2) obtain tagarr d where
    "properties s' = AList.update ''tag''
        (fill_all (resize tagarr (get_number_of_particles s)) d) (properties s)"
    by (auto simp: initialize_tag_def Let_def split: option.splits)
  with all_length_update [OF N_invariant_all_length [OF assms(1)]]
  have "all_length (get_number_of_particles s) (properties s')"
    by (simp add: carray_length_fill_all carray_length_resize)
  then show ?thesis by (rule all_length_N_invariant)
qed

lemma initialize_invariant:
  assumes "initialize self props = (None, s')"
  shows "N_invariant s'"
proof -
  have one: "\<And>s a. N_invariant (s\<lparr>properties := [(''tag'', a)]\<rparr>)"
    by (simp add: N_invariant_def all_length_def get_number_of_particles_def)
  have c: "N_invariant (clear self)"
    by (simp add: clear_def N_invariant_def all_length_def get_number_of_particles_def)
  show ?thesis
  proof (cases "length props = 0")
    case True
    with assms c show ?thesis by (simp add: initialize_def Let_def)
  next
    case False
    show ?thesis
    proof (cases "map_of props ''tag''")
      case None
      with assms False obtain s1 where
        "initialize_loop props (clear self) = (None, s1)" and "initialize_tag s1 = (None, s')"
        by (auto simp: initialize_def Let_def split: prod.splits option.splits)
      with c show ?thesis
        using initialize_loop_invariant initialize_tag_invariant by blast
    next
      case (Some tag_prop)
      with assms False obtain tagarr where
        "initialize_loop (filter (\<lambda>(k, info). k \<noteq> ''tag'') props)
           (clear self\<lparr>properties := [(''tag'', tagarr)]\<rparr>) = (None, s')"
        by (auto simp: initialize_def Let_def split: option.splits sum.splits)
      with one show ?thesis using initialize_loop_invariant by blast
    qed
  qed
qed


text \<open>
  Claim C3, amended. In a store whose property columns all have the same length, a call
  of \<^verbatim>\<open>add_property\<close>, \<^verbatim>\<open>add_particles\<close>, \<^verbatim>\<open>extend\<close>, \<^verbatim>\<open>remove_particles\<close>,
  \<^verbatim>\<open>set\<close> or \<^verbatim>\<open>initialize\<close> that returns normally leaves a store whose property
  columns all have the same length; for \<^verbatim>\<open>add_particles\<close> this is under the
  condition that the batches it is given all have the same length.
\<close>

theorem N_invariant_preserved:
  assumes "N_invariant self"
  shows "(add_property self prop_info = (None, s1) \<longrightarrow> N_invariant s1)
       \<and> (list_all (\<lambda>(k, vs). length vs = length (snd (hd particle_props))) particle_props
            \<longrightarrow> add_particles self particle_props = (None, s2) \<longrightarrow> N_invariant s2)
       \<and> (extend self num_particles = (None, s3) \<longrightarrow> N_invariant s3)
       \<and> (remove_particles self index_list = (None, s4) \<longrightarrow> N_invariant s4)
       \<and> (set_props self props = (None, s5) \<longrightarrow> N_invariant s5)
       \<and> (initialize self prop_specs = (None, s6) \<longrightarrow> N_invariant s6)"
proof (intro conjI impI)
  assume "add_property self prop_info = (None, s1)"
  with assms show "N_invariant s1" by (rule add_property_invariant)
next
  assume "list_all (\<lambda>(k, vs). length vs = length (snd (hd particle_props))) particle_props"
    and "add_particles self particle_props = (None, s2)"
  with assms show "N_invariant s2" by (rule add_particles_invariant)
next
  assume "extend self num_particles = (None, s3)"
  with assms show "N_invariant s3" by (rule extend_invariant)
next
  assume "remove_particles self index_list = (None, s4)"
  with assms show "N_invariant s4" by (rule remove_particles_invariant)
next
  assume "set_props self props = (None, s5)"
  with assms show "N_invariant s5" by (rule set_props_invariant)
next
  assume "initialize self prop_specs = (None, s6)"
  then show "N_invariant s6" by (rule initialize_invariant)
qed

lemmas store_eval =
  N_invariant_def all_length_def get_number_of_particles_def carray_length_def
  add_property_def add_particles_def extend_def remove_particles_def set_props_def
  initialize_def initialize_tag_def clear_def check_property_def has_key_def
  carray_extend_def carray_remove_def resize_def fill_all_def fill_from_def set_data_def
  create_carray_def create_c_array_from_npy_array_def DoubleArray_def LongArray_def
  FloatArray_def IntArray_def new_carray_def asarray_def trunc_toward_zero_def Let_def

theorem N_invariant_preserved_witness:
  "N_invariant store_x4
   \<and> N_invariant (snd (add_property store_x4
        \<lparr>pi_name = Some ''y'', pi_type = Some ''long'', pi_data = None, pi_default = Some 2\<rparr>))
   \<and> N_invariant (snd (add_particles store_x4 [(''x'', [7, 8])]))
   \<and> N_invariant (snd (extend store_x4 2))
   \<and> N_invariant (snd (remove_particles store_x4 [3, 1]))
   \<and> N_invariant (snd (set_props store_x4 [(''x'', [5, 6, 7, 8])]))
   \<and> N_invariant (snd (initialize store_x4
        [(''x'', \<lparr>pi_name = None, pi_type = None, pi_data = Some [1, 2], pi_default = None\<rparr>)]))"
proof -
  let ?iy = "\<lparr>pi_name = Some ''y'', pi_type = Some ''long'', pi_data = None,
              pi_default = Some (2 :: real)\<rparr>"
  let ?pp = "[(''x'', [7, 8 :: real])]"
  let ?sp = "[(''x'', [5, 6, 7, 8 :: real])]"
  let ?ps = "[(''x'', \<lparr>pi_name = None, pi_type = None, pi_data = Some [1, 2 :: real],
                      pi_default = None\<rparr>)]"
  have pair: "\<And>p :: real outcome. fst p = None \<Longrightarrow> p = (None, snd p)"
    by (simp add: prod_eq_iff)
  have inv: "N_invariant store_x4"
    by (simp add: store_eval store_x4_def)
  have e1: "add_property store_x4 ?iy = (None, snd (add_property store_x4 ?iy))"
    by (rule pair) (simp add: store_eval store_x4_def)
  have eq: "list_all (\<lambda>(k, vs). length vs = length (snd (hd ?pp))) ?pp"
    by simp
  have e2: "add_particles store_x4 ?pp = (None, snd (add_particles store_x4 ?pp))"
    by (rule pair) (simp add: store_eval store_x4_def)
  have e3: "extend store_x4 2 = (None, snd (extend store_x4 2))"
    by (rule pair) (simp add: store_eval store_x4_def)
  have e4: "remove_particles store_x4 [3, 1] = (None, snd (remove_particles store_x4 [3, 1]))"
    by (rule pair) (simp add: store_eval store_x4_def)
  have e5: "set_props store_x4 ?sp = (None, snd (set_props store_x4 ?sp))"
    by (rule pair) (simp add: store_eval store_x4_def)
  have e6: "initialize store_x4 ?ps = (None, snd (initialize store_x4 ?ps))"
    by (rule pair) (simp add: store_eval store_x4_def)
  from N_invariant_preserved [OF inv, of ?iy "snd (add_property store_x4 ?iy)"
      ?pp "snd (add_particles store_x4 ?pp)" 2 "snd (extend store_x4 2)"
      "[3, 1]" "snd (remove_particles store_x4 [3, 1])"
      ?sp "snd (set_props store_x4 ?sp)" ?ps "snd (initialize store_x4 ?ps)"]
    inv e1 eq e2 e3 e4 e5 e6
  show ?thesis by blast
qed

text \<open>\<^verbatim>\<open>add_particles\<close> compares no lengths: each named property is extended by its
  own batch. On an empty store with properties \<open>tag\<close> and \<open>x\<close>, batches of lengths 2
  and 1 are accepted and leave \<open>x\<close> with two values and \<open>tag\<close> with one.\<close>

theorem add_particles_unequal_batches_counterexample:
  "N_invariant store_tag_x
   \<and> add_particles store_tag_x [(''x'', [1, 2]), (''tag'', [0])]
       = (None, store_tag_x\<lparr>properties := [(''tag'', CArray CLong [0]),
                                              (''x'', CArray CDouble [1, 2])],
                              is_dirty := True\<rparr>)
   \<and> \<not> N_invariant (snd (add_particles store_tag_x [(''x'', [1, 2]), (''tag'', [0])]))"
  by (simp add: N_invariant_def all_length_def store_tag_x_def get_number_of_particles_def
      carray_length_def add_particles_def check_property_def has_key_def carray_extend_def
      trunc_toward_zero_def Let_def)

section \<open>Setting a column\<close>







section \<open>The first data of an empty store\<close>






lemmas first_data_eval =
  add_property_def new_ParticleArray_def has_key_def get_number_of_particles_def
  carray_length_def LongArray_def DoubleArray_def FloatArray_def IntArray_def new_carray_def
  Let_def create_c_array_from_npy_array_def create_carray_def set_data_def fill_all_def
  resize_def asarray_def trunc_toward_zero_def



text \<open>With data and a type name on an empty store, the call raises after it has
  brought the existing properties to the new length and recorded the default; the new
  column is not attached.\<close>

lemma add_property_typed_data_raises:
  "add_property (new_ParticleArray ''fluid'' 0)
     \<lparr>pi_name = Some ''x'', pi_type = Some ''double'', pi_data = Some [1, 2, 3],
      pi_default = None\<rparr>
   = (Some TypeError,
      \<lparr>pa_name = ''fluid'', properties = [(''tag'', CArray CLong [0, 0, 0])],
       default_values = [(''tag'', 0), (''x'', 0)], temporary_arrays = [],
       is_dirty = True\<rparr>)"
  by (simp add: first_data_eval)

section \<open>The pressure-gradient evaluator\<close>




text \<open>With kernel symmetrization on, the call of \<^verbatim>\<open>grad.set\<close> on the C struct
  fails, and the evaluator returns without adding anything.\<close>

lemma SPHPressureGradient_eval_nbr_hks:
  "hks self \<Longrightarrow>
   SPHPressureGradient_eval_nbr self correction source_pid dest_pid kern nr = nr"
  by (simp add: SPHPressureGradient_eval_nbr_def sph_gradient_def Let_def)

text \<open>The earlier \<^verbatim>\<open>eval\<close> has the opposite sign: on the example it adds
  \<open>(0.4, 0, 0)\<close>.\<close>

lemma SPHPressureGradient_eval_sign:
  "SPHPressureGradient_eval pair_example 0 0 constant_kernel (0, 0, 0) = (0.4, 0, 0)"
  by (simp add: SPHPressureGradient_eval_def kernel_gradient_into_def pair_example_def
      constant_kernel_def Let_def)

section \<open>The momentum equation\<close>

text \<open>When the dot product of relative velocity and relative position of a pair is not
  negative, the artificial-viscosity term \<open>piab\<close> of the momentum evaluator is 0,
  whatever the coefficients of the evaluator are, \<open>alpha\<close> and \<open>beta\<close> among them, in
  \<^verbatim>\<open>eval_nbr\<close> and in the earlier \<^verbatim>\<open>eval\<close> alike. Without kernel symmetrization
  \<^verbatim>\<open>eval_nbr\<close> then adds \<open>- m_src (P_dst / rho_dst\<^sup>2 + P_src / rho_src\<^sup>2)\<close> times
  the gradient to the slots it is configured for.\<close>

lemma MomentumEquation_receding:
  assumes "cPoint_dot (vab self source_pid dest_pid) (rab self source_pid dest_pid) \<ge> 0"
  shows "MomentumEquation_piab self source_pid dest_pid = 0"
    and "MomentumEquation_piab_eval self source_pid dest_pid = 0"
    and "\<not> hks self \<Longrightarrow>
         MomentumEquation_eval_nbr self correction source_pid dest_pid kern (nr0, nr1, nr2)
           = (let coeff = - (s_m self ! source_pid)
                    * (d_p self ! dest_pid / (d_rho self ! dest_pid)\<^sup>2
                       + s_p self ! source_pid / (s_rho self ! source_pid)\<^sup>2);
                  g = kern (cPoint (d_x self ! dest_pid) (d_y self ! dest_pid)
                                   (d_z self ! dest_pid))
                           (cPoint (s_x self ! source_pid) (s_y self ! source_pid)
                                   (s_z self ! source_pid))
                           (0.5 * (s_h self ! source_pid + d_h self ! dest_pid));
                  grad = (if bonnet_and_lok_correction self then correction dest_pid g else g)
              in (nr0 + coeff * px grad,
                  if num_outputs self > 1 then nr1 + coeff * py grad else nr1,
                  if num_outputs self > 2 then nr2 + coeff * pz grad else nr2))"
proof -
  show p1: "MomentumEquation_piab self source_pid dest_pid = 0"
    using assms by (simp add: MomentumEquation_piab_def Let_def)
  show "MomentumEquation_piab_eval self source_pid dest_pid = 0"
    using assms by (simp add: MomentumEquation_piab_eval_def Let_def)
  show "MomentumEquation_eval_nbr self correction source_pid dest_pid kern (nr0, nr1, nr2)
           = (let coeff = - (s_m self ! source_pid)
                    * (d_p self ! dest_pid / (d_rho self ! dest_pid)\<^sup>2
                       + s_p self ! source_pid / (s_rho self ! source_pid)\<^sup>2);
                  g = kern (cPoint (d_x self ! dest_pid) (d_y self ! dest_pid)
                                   (d_z self ! dest_pid))
                           (cPoint (s_x self ! source_pid) (s_y self ! source_pid)
                                   (s_z self ! source_pid))
                           (0.5 * (s_h self ! source_pid + d_h self ! dest_pid));
                  grad = (if bonnet_and_lok_correction self then correction dest_pid g else g)
              in (nr0 + coeff * px grad,
                  if num_outputs self > 1 then nr1 + coeff * py grad else nr1,
                  if num_outputs self > 2 then nr2 + coeff * pz grad else nr2))"
    if "\<not> hks self"
    using that
    by (simp add: p1 MomentumEquation_eval_nbr_def sph_gradient_def accumulate_def Let_def
        power2_eq_square mult.commute add.commute)
qed

text \<open>With kernel symmetrization on, \<^verbatim>\<open>eval_nbr\<close> adds nothing, for the same call of
  \<^verbatim>\<open>grad.set\<close>; the earlier \<^verbatim>\<open>eval\<close> never adds anything, since its \<open>grad\<close> is
  never assigned.\<close>

lemma MomentumEquation_eval_nbr_hks:
  "hks self \<Longrightarrow> MomentumEquation_eval_nbr self correction source_pid dest_pid kern nr = nr"
  by (simp add: MomentumEquation_eval_nbr_def sph_gradient_def Let_def)

lemma MomentumEquation_eval_adds_nothing:
  "MomentumEquation_eval self source_pid dest_pid kern nr = nr"
  by (simp add: MomentumEquation_eval_def kernel_gradient_into_def Let_def)

text \<open>
  Claim C2 says that for a pair whose dot product of relative velocity and relative
  position is not negative, the momentum evaluator works with \<open>piab = 0\<close> and adds
  \<open>- m_src (P_dst / rho_dst\<^sup>2 + P_src / rho_src\<^sup>2)\<close> times the kernel gradient. On the
  example pair the dot product is 1 and \<open>piab\<close> is 0. With kernel symmetrization on and
  a kernel whose gradient is \<open>(0.1, 0, 0)\<close> at every smoothing length, \<^verbatim>\<open>eval_nbr\<close>
  leaves the accumulator at \<open>(0, 0, 0)\<close>, where without symmetrization it adds
  \<open>(-0.4, 0, 0)\<close>; the earlier \<^verbatim>\<open>eval\<close> leaves it at \<open>(0, 0, 0)\<close> as well.
\<close>

theorem MomentumEquation_hks_adds_nothing:
  "hks (pair_example\<lparr>hks := True\<rparr>)
   \<and> cPoint_dot (vab (pair_example\<lparr>hks := True\<rparr>) 0 0) (rab (pair_example\<lparr>hks := True\<rparr>) 0 0) = 1
   \<and> MomentumEquation_piab (pair_example\<lparr>hks := True\<rparr>) 0 0 = 0
   \<and> MomentumEquation_eval_nbr (pair_example\<lparr>hks := True\<rparr>) (\<lambda>i g. g) 0 0
        constant_kernel (0, 0, 0) = (0, 0, 0)
   \<and> MomentumEquation_eval_nbr pair_example (\<lambda>i g. g) 0 0 constant_kernel (0, 0, 0)
        = (- 0.4, 0, 0)
   \<and> MomentumEquation_eval pair_example 0 0 constant_kernel (0, 0, 0) = (0, 0, 0)"
  by (simp add: MomentumEquation_eval_nbr_def MomentumEquation_eval_def
      MomentumEquation_piab_def MomentumEquation_piab_eval_def sph_gradient_def
      kernel_gradient_into_def accumulate_def cPoint_dot_def vab_def rab_def Let_def
      pair_example_def constant_kernel_def)

end
